theory Spec2Isabelle
  imports Complex_Main
begin

section \<open>Strings as the interpreter sees them\<close>

text \<open>
  A Python \<open>str\<close> is modelled as a \<^typ>\<open>string\<close>: the bytes of its UTF-8 encoding. Every cue
  phrase, pattern and test message of \<open>nlp_engine.py\<close> is ASCII, and on ASCII text the
  functions below compute what Python computes. A byte above 127 is neither a letter, nor
  white space, nor a word character here, and \<open>lower\<close> leaves it alone. The theorems that
  quantify over every message are structural: they hold whatever these character classes are.
\<close>

definition is_upper :: "char \<Rightarrow> bool" where
  "is_upper c = (65 \<le> (of_char c :: nat) \<and> (of_char c :: nat) \<le> 90)"

definition is_lower :: "char \<Rightarrow> bool" where
  "is_lower c = (97 \<le> (of_char c :: nat) \<and> (of_char c :: nat) \<le> 122)"

definition is_alpha :: "char \<Rightarrow> bool" where
  "is_alpha c = (is_upper c \<or> is_lower c)"

definition is_digit :: "char \<Rightarrow> bool" where
  "is_digit c = (48 \<le> (of_char c :: nat) \<and> (of_char c :: nat) \<le> 57)"

text \<open>\<open>\w\<close> of the \<open>re\<close> module, on ASCII: letters, digits and the underscore.\<close>

definition is_word :: "char \<Rightarrow> bool" where
  "is_word c = (is_alpha c \<or> is_digit c \<or> c = CHR ''_'')"

text \<open>
  \<open>str.isspace\<close> and \<open>\s\<close> on ASCII: tab, line feed, vertical tab, form feed, carriage
  return, the four separators 28..31 and the blank.
\<close>

definition is_space :: "char \<Rightarrow> bool" where
  "is_space c = ((9 \<le> (of_char c :: nat) \<and> (of_char c :: nat) \<le> 13)
     \<or> (28 \<le> (of_char c :: nat) \<and> (of_char c :: nat) \<le> 32))"

definition lower_char :: "char \<Rightarrow> char" where
  "lower_char c = (if is_upper c then char_of ((of_char c :: nat) + 32) else c)"

text \<open>\<open>str.lower()\<close>.\<close>

definition lower :: "string \<Rightarrow> string" where
  "lower s = map lower_char s"

text \<open>\<open>str.strip()\<close>.\<close>

definition strip :: "string \<Rightarrow> string" where
  "strip s = rev (dropWhile is_space (rev (dropWhile is_space s)))"

text \<open>The maximal runs of characters of a class, from left to right.\<close>

fun runs_acc :: "(char \<Rightarrow> bool) \<Rightarrow> string \<Rightarrow> string \<Rightarrow> string list" where
  "runs_acc p cur [] = (if cur = [] then [] else [rev cur])"
| "runs_acc p cur (c # cs) =
     (if p c then runs_acc p (c # cur) cs
      else if cur = [] then runs_acc p [] cs else rev cur # runs_acc p [] cs)"

text \<open>\<open>str.split()\<close> without arguments: the runs of characters that are not white space.\<close>

definition split :: "string \<Rightarrow> string list" where
  "split s = runs_acc (\<lambda>c. \<not> is_space c) [] s"

fun starts_with :: "string \<Rightarrow> string \<Rightarrow> bool" where
  "starts_with [] t = True"
| "starts_with (c # cs) [] = False"
| "starts_with (c # cs) (d # ds) = (c = d \<and> starts_with cs ds)"

text \<open>\<open>x in t\<close> for two strings: \<open>x\<close> occurs in \<open>t\<close> as a contiguous substring.\<close>

fun isin :: "string \<Rightarrow> string \<Rightarrow> bool" where
  "isin x [] = (x = [])"
| "isin x (c # cs) = (starts_with x (c # cs) \<or> isin x cs)"

text \<open>\<open>any(x in t for x in cues)\<close>.\<close>

definition any_in :: "string list \<Rightarrow> string \<Rightarrow> bool" where
  "any_in cues t = list_ex (\<lambda>x. isin x t) cues"

section \<open>Intents and the rule cascade\<close>


text \<open>\<open>_predict_intent_rules\<close>, lines 84 to 120, in the order of the source.\<close>

definition predict_intent_rules :: "string \<Rightarrow> string" where
  "predict_intent_rules text =
     (let t = lower text in
      if any_in [''help'', ''what can you do'', ''commands'', ''examples''] t then ''help''
      else
        let has_tomorrow = isin ''tomorrow'' t;
            has_week = any_in [''this week'', ''next 7'', ''7 day'', ''week forecast'', ''weekly''] t;
            has_3day = any_in [''next 3'', ''3 day'', ''three day'', ''next three''] t
        in
        if any_in [''temperature'', ''temp'', ''how hot'', ''how cold'', ''degrees''] t
          then ''temperature_now''
        else if any_in [''wind'', ''windy'', ''gust''] t then ''wind_now''
        else if any_in [''humidity'', ''humid''] t then ''humidity_now''
        else if any_in [''snow'', ''snowfall''] t
          then (if \<not> has_tomorrow then ''snow_now'' else ''tomorrow_summary'')
        else if any_in [''rain'', ''raining'', ''precip'', ''shower''] t
          then (if has_tomorrow then ''tomorrow_rain'' else ''rain_now'')
        else if any_in [''condition'', ''weather like'', ''sunny'', ''cloudy'', ''clear'', ''overcast''] t
          then ''conditions_now''
        else if has_tomorrow then ''tomorrow_summary''
        else if has_3day then ''next3days_summary''
        else if has_week then ''week_summary''
        else ''conditions_now'')"

section \<open>The regular expressions of the slot extractor\<close>

text \<open>
  The fragment of Python's \<open>re\<close> that the three location patterns use. \<open>matches\<close> is a
  backtracking matcher: it lists every way a pattern can match from a position, in the order
  in which \<open>re\<close> tries them (a greedy repetition tries its longest run first), so that the
  head of the list is the match \<open>re\<close> reports. A state is the position reached and the span
  of capturing group 1.
\<close>

datatype rx =
    Eps
  | Lit bool string
  | Cls "char \<Rightarrow> bool"
  | Many "char \<Rightarrow> bool" nat
  | Seq rx rx
  | Alt rx rx
  | UpTo nat rx
  | Group rx
  | WordBoundary
  | EndAnchor

type_synonym mstate = "nat \<times> (nat \<times> nat) option"

text \<open>Greedy \<open>(?:r){0,n}\<close>: one more round of \<open>r\<close> first, no further round last.\<close>

primrec upto_iter :: "(mstate \<Rightarrow> mstate list) \<Rightarrow> nat \<Rightarrow> mstate \<Rightarrow> mstate list" where
  "upto_iter f 0 s = [s]"
| "upto_iter f (Suc n) s = concat (map (upto_iter f n) (f s)) @ [s]"

text \<open>\<open>\b\<close>: exactly one of the characters before and after the position is a word character.\<close>

definition at_word_boundary :: "string \<Rightarrow> nat \<Rightarrow> bool" where
  "at_word_boundary text pos =
     ((0 < pos \<and> pos \<le> length text \<and> is_word (text ! (pos - 1)))
        \<noteq> (pos < length text \<and> is_word (text ! pos)))"

text \<open>\<open>$\<close> without \<open>re.MULTILINE\<close>: the end of the string, or just before a final line feed.\<close>

definition at_end :: "string \<Rightarrow> nat \<Rightarrow> bool" where
  "at_end text pos =
     (pos = length text \<or> (Suc pos = length text \<and> text ! pos = CHR 0x0A))"

fun matches :: "string \<Rightarrow> rx \<Rightarrow> mstate \<Rightarrow> mstate list" where
  "matches text Eps s = [s]"
| "matches text (Lit ci w) s =
     (let rest = drop (fst s) text in
      if (if ci then starts_with (lower w) (lower rest) else starts_with w rest)
      then [(fst s + length w, snd s)] else [])"
| "matches text (Cls p) s =
     (if fst s < length text \<and> p (text ! fst s) then [(Suc (fst s), snd s)] else [])"
| "matches text (Many p n) s =
     (let k = length (takeWhile p (drop (fst s) text)) in
      map (\<lambda>j. (fst s + j, snd s)) (rev [n..<Suc k]))"
| "matches text (Seq a b) s = concat (map (matches text b) (matches text a s))"
| "matches text (Alt a b) s = matches text a s @ matches text b s"
| "matches text (UpTo n r) s = upto_iter (\<lambda>s'. matches text r s') n s"
| "matches text (Group r) s = map (\<lambda>e. (fst e, Some (fst s, fst e))) (matches text r s)"
| "matches text WordBoundary s = (if at_word_boundary text (fst s) then [s] else [])"
| "matches text EndAnchor s = (if at_end text (fst s) then [s] else [])"

text \<open>\<open>re.search\<close>: the first match at the leftmost position that has one.\<close>

fun search_at :: "string \<Rightarrow> rx \<Rightarrow> nat list \<Rightarrow> mstate option" where
  "search_at text r [] = None"
| "search_at text r (i # rest) =
     (case matches text r (i, None) of [] \<Rightarrow> search_at text r rest | m # _ \<Rightarrow> Some m)"

definition re_search :: "rx \<Rightarrow> string \<Rightarrow> mstate option" where
  "re_search r text = search_at text r [0..<Suc (length text)]"

text \<open>\<open>m.group(1)\<close>; group 1 takes part in every match of the three patterns below.\<close>

definition group1 :: "string \<Rightarrow> mstate \<Rightarrow> string" where
  "group1 text m = (case snd m of Some (b, e) \<Rightarrow> take (e - b) (drop b text) | None \<Rightarrow> [])"

definition seqs :: "rx list \<Rightarrow> rx" where
  "seqs rs = foldr Seq rs Eps"

text \<open>The class \<open>[a-zA-Z\s,.'-]\<close>.\<close>

definition loc_char :: "char \<Rightarrow> bool" where
  "loc_char c = (is_alpha c \<or> is_space c \<or> c \<in> set '',.'-'')"

text \<open>\<open>\b(?:in|at|for)\s+([a-zA-Z\s,.'-]{2,})$\<close> with \<open>re.IGNORECASE\<close>.\<close>

definition rx_preposition :: rx where
  "rx_preposition =
     seqs [WordBoundary, Alt (Lit True ''in'') (Alt (Lit True ''at'') (Lit True ''for'')),
           Many is_space 1, Group (Many loc_char 2), EndAnchor]"

text \<open>\<open>\bweather\s+in\s+([a-zA-Z\s,.'-]{2,})\<close> with \<open>re.IGNORECASE\<close>.\<close>

definition rx_weather_in :: rx where
  "rx_weather_in =
     seqs [WordBoundary, Lit True ''weather'', Many is_space 1, Lit True ''in'',
           Many is_space 1, Group (Many loc_char 2)]"

text \<open>\<open>[A-Z][a-z]+\<close>.\<close>

definition rx_cap_word :: rx where
  "rx_cap_word = Seq (Cls is_upper) (Many is_lower 1)"

text \<open>\<open>([A-Z][a-z]+(?:\s+[A-Z][a-z]+){0,3}(?:\s*,\s*[A-Z][a-z]+)?)\s*$\<close>.\<close>

definition rx_capitalized :: rx where
  "rx_capitalized =
     seqs [Group (seqs [rx_cap_word,
                        UpTo 3 (Seq (Many is_space 1) rx_cap_word),
                        UpTo 1 (seqs [Many is_space 0, Lit False '','', Many is_space 0,
                                      rx_cap_word])]),
           Many is_space 0, EndAnchor]"

section \<open>Slot extraction\<close>

text \<open>
  The three heuristics of \<open>_extract_location\<close>, lines 125 to 127, 130 to 132 and 135 to
  140: each gives the place it finds, or nothing.
\<close>

definition location_after_preposition :: "string \<Rightarrow> string option" where
  "location_after_preposition text =
     (case re_search rx_preposition (strip text) of
        None \<Rightarrow> None
      | Some m \<Rightarrow> Some (strip (group1 (strip text) m)))"

definition location_after_weather_in :: "string \<Rightarrow> string option" where
  "location_after_weather_in text =
     (case re_search rx_weather_in text of
        None \<Rightarrow> None
      | Some m \<Rightarrow> Some (strip (group1 text m)))"

definition temporal_words :: "string list" where
  "temporal_words = [''tomorrow'', ''today'', ''week'', ''morning'', ''evening'']"

definition location_capitalized :: "string \<Rightarrow> string option" where
  "location_capitalized text =
     (case re_search rx_capitalized text of
        None \<Rightarrow> None
      | Some m \<Rightarrow>
          if 2 \<le> length (split text) then
            (let guess = strip (group1 text m) in
             if lower guess \<notin> set temporal_words then Some guess else None)
          else None)"

text \<open>\<open>_extract_location\<close>, lines 123 to 141: the first heuristic that finds a place.\<close>

definition extract_location :: "string \<Rightarrow> string option" where
  "extract_location text =
     (case location_after_preposition text of
        Some place \<Rightarrow> Some place
      | None \<Rightarrow>
          (case location_after_weather_in text of
             Some place \<Rightarrow> Some place
           | None \<Rightarrow> location_capitalized text))"

text \<open>\<open>_extract_time_window\<close>, lines 144 to 166: the horizon and the time of day.\<close>

definition extract_time_window :: "string \<Rightarrow> string \<times> string option" where
  "extract_time_window text =
     (let t = lower text;
          horizon =
            (if isin ''tomorrow'' t then ''tomorrow''
             else if any_in [''next 3'', ''3 day'', ''three day''] t then ''next3days''
             else if any_in [''week'', ''7 day'', ''next 7''] t then ''week''
             else ''now'');
          tod =
            (if isin ''morning'' t then Some ''morning''
             else if isin ''afternoon'' t then Some ''afternoon''
             else if isin ''evening'' t then Some ''evening''
             else if isin ''night'' t then Some ''night''
             else None)
      in (horizon, tod))"

section \<open>Numbers and their rendering\<close>

text \<open>
  A Python number (an \<open>int\<close> or a finite \<open>float\<close>) is modelled by its exact value, a
  real number. The format specifications \<open>:.1f\<close> and \<open>:.0f\<close> round the exact value to
  that many decimals, a tie going to the even neighbour, and keep the sign of a negative
  value that rounds to zero. Sums and quotients are exact here; the rounding of
  floating-point addition is not modelled.
\<close>

definition digit_char :: "nat \<Rightarrow> char" where
  "digit_char n = ''0123456789'' ! n"

function digits :: "nat \<Rightarrow> string" where
  "digits n = (if n < 10 then [digit_char n] else digits (n div 10) @ [digit_char (n mod 10)])"
  by pat_completeness auto
termination
  by (relation "measure id") auto

declare digits.simps [simp del]

definition round_half_even :: "real \<Rightarrow> int" where
  "round_half_even y =
     (let f = \<lfloor>y\<rfloor>; d = y - of_int f in
      if d < 1 / 2 then f
      else if 1 / 2 < d then f + 1
      else if even f then f else f + 1)"

definition format_f :: "nat \<Rightarrow> real \<Rightarrow> string" where
  "format_f d x =
     (let n = nat (round_half_even (\<bar>x\<bar> * 10 ^ d));
          ip = digits (n div 10 ^ d);
          fp = digits (n mod 10 ^ d)
      in (if x < 0 then ''-'' else []) @ ip
         @ (if d = 0 then [] else ''.'' @ replicate (d - length fp) CHR ''0'' @ fp))"

section \<open>The data model\<close>

datatype py_error = TypeError | ValueError | ClassifierError

text \<open>
  The dictionary that \<open>interpret_message\<close> returns and \<open>format_weather_reply\<close> reads; a
  field \<open>req_k\<close> is the key \<open>k\<close>.
\<close>

record parsed_request =
  req_intent :: string
  req_horizon :: string
  req_tod :: "string option"
  req_coords :: "(real \<times> real) option"
  req_location_label :: "string option"
  req_sentiment :: "string option"
  req_error :: "string option"

text \<open>
  The forecast bundle as \<open>_parse_bundle\<close> of \<open>weather_service.py\<close> builds it: every key
  is present, and \<open>None\<close> is Python's \<open>None\<close> stored under the key (lines 93 to 103, 116 to
  124 and 155 to 165). A field \<open>cur_k\<close>, \<open>day_k\<close> or \<open>hr_k\<close> is the key \<open>k\<close> of the current
  readings, of a daily entry or of an hourly entry.
\<close>

record current_readings =
  cur_temperature_c :: "real option"
  cur_apparent_c :: "real option"
  cur_humidity_pct :: "real option"
  cur_precip_mm :: "real option"
  cur_rain_mm :: "real option"
  cur_snow_mm :: "real option"
  cur_wind_kmh :: "real option"
  cur_weather_code :: "int option"
  cur_time :: "string option"

record daily_entry =
  day_date :: string
  day_tmax_c :: "real option"
  day_tmin_c :: "real option"
  day_weather_code :: "int option"
  day_precip_prob_max :: "real option"
  day_rain_mm :: "real option"
  day_snow_mm :: "real option"

record hourly_entry =
  hr_time :: string
  hr_date_offset :: int
  hr_hour :: int
  hr_precip_prob :: "real option"
  hr_rain_mm :: "real option"
  hr_snow_mm :: "real option"
  hr_weather_code :: "int option"
  hr_wind_kmh :: "real option"
  hr_humidity_pct :: "real option"

record forecast_bundle =
  current :: current_readings
  daily :: "daily_entry list"
  hourly :: "hourly_entry list"

text \<open>
  What \<open>nlp_engine.py\<close> sets up when it is loaded and only reads afterwards: the unpickled
  classifier \<open>_MODEL\<close> (absent when the file is missing or does not load; its \<open>classify\<close>
  returns a label or raises), the sentiment analyser \<open>_SIA\<close> (absent when NLTK has none; the
  function gives the \<open>compound\<close> entry of its scores, when there is one) and the Porter
  stemmer of NLTK. No function of the module assigns to one of them.
\<close>

record globals =
  MODEL :: "((string \<rightharpoonup> bool) \<Rightarrow> py_error + string) option"
  SIA :: "(string \<Rightarrow> real option) option"
  stemmer :: "string \<Rightarrow> string"

section \<open>The trained classifier and the choice of the intent\<close>

definition MIN_STOP :: "string list" where
  "MIN_STOP =
     [''a'', ''an'', ''the'', ''is'', ''are'', ''was'', ''were'', ''in'', ''on'', ''at'', ''to'',
      ''for'', ''of'', ''and'', ''or'', ''please'', ''tell'', ''me'', ''what'', ''whats'',
      ''what's'', ''give'', ''show'', ''can'', ''could'', ''will'']"

text \<open>\<open>_tokenize\<close>: \<open>re.findall(r"[a-zA-Z']+", text.lower())\<close>.\<close>

definition tokenize :: "string \<Rightarrow> string list" where
  "tokenize text = runs_acc (\<lambda>c. is_alpha c \<or> c = CHR 0x27) [] (lower text)"

definition preprocess :: "globals \<Rightarrow> string \<Rightarrow> string list" where
  "preprocess g text = map (stemmer g) (filter (\<lambda>t. t \<notin> set MIN_STOP) (tokenize text))"

definition features_from_tokens :: "string list \<Rightarrow> (string \<rightharpoonup> bool)" where
  "features_from_tokens tokens = map_of (map (\<lambda>t. (t, True)) tokens)"

text \<open>\<open>_predict_intent_ml\<close>, lines 73 to 81: an exception of \<open>classify\<close> gives \<open>None\<close>.\<close>

definition predict_intent_ml :: "globals \<Rightarrow> string \<Rightarrow> string option" where
  "predict_intent_ml g text =
     (case MODEL g of
        None \<Rightarrow> None
      | Some model \<Rightarrow>
          (case model (features_from_tokens (preprocess g text)) of
             Inl e \<Rightarrow> None
           | Inr label \<Rightarrow> Some label))"

text \<open>
  Line 196, \<open>_predict_intent_ml(msg) or _predict_intent_rules(msg)\<close>: Python's \<open>or\<close> takes
  the rules when the first operand is \<open>None\<close> or the empty string.
\<close>

definition predict_intent :: "globals \<Rightarrow> string \<Rightarrow> string" where
  "predict_intent g msg =
     (case predict_intent_ml g msg of
        None \<Rightarrow> predict_intent_rules msg
      | Some label \<Rightarrow> if label = [] then predict_intent_rules msg else label)"

section \<open>The message interpreter\<close>

text \<open>
  \<open>_sentiment\<close>, lines 169 to 177. The thresholds are the doubles that the literals
  \<open>0.35\<close> and \<open>-0.35\<close> denote.
\<close>

definition sentiment :: "globals \<Rightarrow> string \<Rightarrow> string option" where
  "sentiment g text =
     (case SIA g of
        None \<Rightarrow> None
      | Some polarity \<Rightarrow>
          (let s = (case polarity text of Some c \<Rightarrow> c | None \<Rightarrow> 0) in
           if 3152519739159347 / 9007199254740992 \<le> s then Some ''positive''
           else if s \<le> - (3152519739159347 / 9007199254740992) then Some ''negative''
           else Some ''neutral''))"

text \<open>
  The values that \<open>lat\<close> and \<open>lon\<close> take in the JSON payload, by what \<open>float()\<close> does
  with them: \<open>PyNone\<close>; a value that \<open>float()\<close> converts (a number, or a string that spells
  one), with the result; a value on which \<open>float()\<close> raises (any other string, a list, an
  object).
\<close>

datatype pyval = PyNone | PyNum real | PyBad

definition py_float :: "pyval \<Rightarrow> py_error + real" where
  "py_float v = (case v of PyNone \<Rightarrow> Inl TypeError | PyNum x \<Rightarrow> Inr x | PyBad \<Rightarrow> Inl ValueError)"

definition location_prompt :: string where
  "location_prompt =
     ''Which location should I use? Example: **'' @ [CHR 0x22]
       @ ''Will it rain in Lisbon tomorrow morning?'' @ [CHR 0x22] @ ''**''"

text \<open>Line 181: \<open>(message or "").strip()\<close>.\<close>

definition clean_message :: "string option \<Rightarrow> string" where
  "clean_message message = strip (case message of None \<Rightarrow> [] | Some m \<Rightarrow> m)"

text \<open>
  Lines 184 to 189: the coordinates, when both values are given and \<open>float()\<close> converts
  both; an exception of \<open>float()\<close> is caught and leaves \<open>None\<close>.
\<close>

definition coords_of :: "pyval \<Rightarrow> pyval \<Rightarrow> (real \<times> real) option" where
  "coords_of lat lon =
     (if lat \<noteq> PyNone \<and> lon \<noteq> PyNone then
        (case py_float lat of
           Inl e \<Rightarrow> None
         | Inr la \<Rightarrow> (case py_float lon of Inl e \<Rightarrow> None | Inr lo \<Rightarrow> Some (la, lo)))
      else None)"

text \<open>
  Line 191, \<open>_extract_location(msg) or last_location\<close>: the remembered location when nothing
  is extracted, or the empty string is.
\<close>

definition location_of :: "string \<Rightarrow> string option \<Rightarrow> string option" where
  "location_of msg last_location =
     (case extract_location msg of
        None \<Rightarrow> last_location
      | Some place \<Rightarrow> if place = [] then last_location else Some place)"

text \<open>
  \<open>interpret_message\<close>, lines 180 to 217. \<open>not coords\<close> holds of \<open>None\<close> only (the dictionary
  has two keys), \<open>not location\<close> of \<open>None\<close> and of the empty string.
\<close>

definition interpret_message ::
    "globals \<Rightarrow> string option \<Rightarrow> string option \<Rightarrow> pyval \<Rightarrow> pyval \<Rightarrow> parsed_request" where
  "interpret_message g message last_location lat lon =
     (let msg = clean_message message;
          coords = coords_of lat lon;
          location = location_of msg last_location;
          horizon = fst (extract_time_window msg);
          tod = snd (extract_time_window msg);
          intent = predict_intent g msg
      in
      if coords = None \<and> (location = None \<or> location = Some []) then
        \<lparr> req_intent = intent, req_horizon = horizon, req_tod = tod, req_coords = None,
          req_location_label = None, req_sentiment = sentiment g msg,
          req_error = Some location_prompt \<rparr>
      else
        \<lparr> req_intent = intent, req_horizon = horizon, req_tod = tod, req_coords = coords,
          req_location_label = location, req_sentiment = sentiment g msg,
          req_error = None \<rparr>)"

section \<open>The reply formatter\<close>

definition WEATHER_CODE :: "(int \<times> string) list" where
  "WEATHER_CODE =
     [(0, ''clear sky''), (1, ''mainly clear''), (2, ''partly cloudy''), (3, ''overcast''),
      (45, ''fog''), (48, ''depositing rime fog''), (51, ''light drizzle''),
      (53, ''moderate drizzle''), (55, ''dense drizzle''), (56, ''freezing drizzle (light)''),
      (57, ''freezing drizzle (dense)''), (61, ''slight rain''), (63, ''moderate rain''),
      (65, ''heavy rain''), (66, ''freezing rain (light)''), (67, ''freezing rain (heavy)''),
      (71, ''slight snow fall''), (73, ''moderate snow fall''), (75, ''heavy snow fall''),
      (77, ''snow grains''), (80, ''rain showers (slight)''), (81, ''rain showers (moderate)''),
      (82, ''rain showers (violent)''), (85, ''snow showers (slight)''),
      (86, ''snow showers (heavy)''), (95, ''thunderstorm''),
      (96, ''thunderstorm with hail (slight)''), (99, ''thunderstorm with hail (heavy)'')]"

text \<open>\<open>_WEATHER_CODE.get(code, "unknown")\<close>.\<close>

definition weather_desc :: "int option \<Rightarrow> string" where
  "weather_desc code =
     (case code of
        None \<Rightarrow> ''unknown''
      | Some c \<Rightarrow> (case map_of WEATHER_CODE c of None \<Rightarrow> ''unknown'' | Some d \<Rightarrow> d))"

definition tod_hours :: "string option \<Rightarrow> (int \<times> int) option" where
  "tod_hours tod =
     (if tod = Some ''morning'' then Some (6, 12)
      else if tod = Some ''afternoon'' then Some (12, 18)
      else if tod = Some ''evening'' then Some (18, 24)
      else if tod = Some ''night'' then Some (0, 6)
      else None)"

text \<open>\<open>sep.join(parts)\<close>.\<close>

fun join :: "string \<Rightarrow> string list \<Rightarrow> string" where
  "join sep [] = []"
| "join sep [x] = x"
| "join sep (x # y # ys) = x @ sep @ join sep (y # ys)"

text \<open>
  The characters of the templates beyond ASCII, in UTF-8: the degree sign, the right single
  quotation mark, the em dash, the en dash, the almost-equal sign and the bullet.
\<close>

definition degree :: string where "degree = [CHR 0xC2, CHR 0xB0]"
definition rsquo :: string where "rsquo = [CHR 0xE2, CHR 0x80, CHR 0x99]"
definition mdash :: string where "mdash = [CHR 0xE2, CHR 0x80, CHR 0x94]"
definition ndash :: string where "ndash = [CHR 0xE2, CHR 0x80, CHR 0x93]"
definition approx :: string where "approx = [CHR 0xE2, CHR 0x89, CHR 0x88]"
definition bullet :: string where "bullet = [CHR 0xE2, CHR 0x80, CHR 0xA2]"

text \<open>
  \<open>f"{v:.1f}"\<close> and \<open>f"{v:.0f}"\<close> on a value that may be \<open>None\<close>: \<open>None\<close> does not accept
  the format specification, and the f-string raises \<open>TypeError\<close>.
\<close>

definition format_opt :: "nat \<Rightarrow> real option \<Rightarrow> py_error + string" where
  "format_opt d v = (case v of None \<Rightarrow> Inl TypeError | Some x \<Rightarrow> Inr (format_f d x))"

text \<open>\<open>sum(...)\<close> from the start value 0: adding \<open>None\<close> raises \<open>TypeError\<close>.\<close>

fun py_sum :: "real option list \<Rightarrow> py_error + real" where
  "py_sum [] = Inr 0"
| "py_sum (None # vs) = Inl TypeError"
| "py_sum (Some x # vs) = (case py_sum vs of Inl e \<Rightarrow> Inl e | Inr s \<Rightarrow> Inr (x + s))"

text \<open>The strings of a list of results, or the first error.\<close>

fun collect :: "(py_error + string) list \<Rightarrow> py_error + string list" where
  "collect [] = Inr []"
| "collect (Inl e # rs) = Inl e"
| "collect (Inr x # rs) = (case collect rs of Inl e \<Rightarrow> Inl e | Inr xs \<Rightarrow> Inr (x # xs))"

definition tone :: string where
  "tone = ''I'' @ rsquo @ ''ve got you '' @ mdash @ '' ''"

definition now_intents :: "string list" where
  "now_intents =
     [''temperature_now'', ''conditions_now'', ''wind_now'', ''humidity_now'', ''rain_now'',
      ''snow_now'']"

text \<open>Lines 283 to 306: the lines of the block for the current readings.\<close>

definition now_parts :: "string \<Rightarrow> current_readings \<Rightarrow> string \<Rightarrow> string list" where
  "now_parts intent cur label =
     [''**'' @ label @ ''** right now:'']
     @ (if intent = ''temperature_now'' \<or> intent = ''conditions_now'' then
          (case cur_temperature_c cur of
             None \<Rightarrow> []
           | Some temp \<Rightarrow> [''- Temperature: **'' @ format_f 1 temp @ degree @ ''C**''])
          @ [''- Conditions: **'' @ weather_desc (cur_weather_code cur) @ ''**'']
        else [])
     @ (if intent = ''wind_now'' then
          (case cur_wind_kmh cur of
             None \<Rightarrow> [] | Some w \<Rightarrow> [''- Wind: **'' @ format_f 0 w @ '' km/h**''])
        else [])
     @ (if intent = ''humidity_now'' then
          (case cur_humidity_pct cur of
             None \<Rightarrow> [] | Some h \<Rightarrow> [''- Humidity: **'' @ format_f 0 h @ ''%**''])
        else [])
     @ (if intent = ''rain_now'' then
          (case cur_rain_mm cur of
             None \<Rightarrow> [] | Some r \<Rightarrow> [''- Rain (last hour): **'' @ format_f 1 r @ '' mm**''])
        else [])
     @ (if intent = ''snow_now'' then
          (case cur_snow_mm cur of
             None \<Rightarrow> [] | Some s \<Rightarrow> [''- Snowfall (last hour): **'' @ format_f 1 s @ '' mm**''])
        else [])"

text \<open>Lines 324 to 328: the sentence about tomorrow's rain.\<close>

definition tomorrow_rain_msg :: "string \<Rightarrow> daily_entry \<Rightarrow> string" where
  "tomorrow_rain_msg label d =
     ''**'' @ label @ ''** tomorrow ('' @ day_date d @ ''): ''
     @ (case day_precip_prob_max d of
          None \<Rightarrow> []
        | Some pop \<Rightarrow> ''precipitation probability up to **'' @ format_f 0 pop @ ''%**. '')
     @ (case day_rain_mm d of
          None \<Rightarrow> []
        | Some rain \<Rightarrow> ''expected rain '' @ approx @ '' **'' @ format_f 1 rain @ '' mm**.'')"

text \<open>
  Lines 336 to 341: the hourly entries of tomorrow inside the window, and the sentence
  about them. \<open>None\<close> when no entry is in the window: the source then goes on to the summary.
\<close>

definition window_vals :: "hourly_entry list \<Rightarrow> int \<times> int \<Rightarrow> hourly_entry list" where
  "window_vals hs hours =
     filter (\<lambda>h. hr_date_offset h = 1 \<and> fst hours \<le> hr_hour h \<and> hr_hour h < snd hours) hs"

definition window_msg :: "string \<Rightarrow> string \<Rightarrow> hourly_entry list \<Rightarrow> py_error + string" where
  "window_msg label tod vals =
     (case py_sum (map hr_precip_prob vals) of
        Inl e \<Rightarrow> Inl e
      | Inr pop_total \<Rightarrow>
          (case py_sum (map hr_rain_mm vals) of
             Inl e \<Rightarrow> Inl e
           | Inr rain_sum \<Rightarrow>
               Inr (''**'' @ label @ ''** tomorrow '' @ tod @ '': avg precip prob ~ **''
                    @ format_f 0 (pop_total / of_nat (length vals)) @ ''%**, rain sum ~ **''
                    @ format_f 1 rain_sum @ '' mm**.'')))"

text \<open>Lines 342 to 347: the summary of tomorrow; each of its five numbers is formatted.\<close>

definition tomorrow_summary_msg :: "string \<Rightarrow> daily_entry \<Rightarrow> py_error + string" where
  "tomorrow_summary_msg label d =
     (case collect [format_opt 1 (day_tmin_c d), format_opt 1 (day_tmax_c d),
                    format_opt 1 (day_rain_mm d), format_opt 1 (day_snow_mm d),
                    format_opt 0 (day_precip_prob_max d)] of
        Inr [tmin, tmax, rain, snow, pop] \<Rightarrow>
          Inr (''**'' @ label @ ''** tomorrow ('' @ day_date d @ ''): **''
               @ weather_desc (day_weather_code d) @ ''**\<newline>''
               @ ''- Min/Max: **'' @ tmin @ degree @ ''C / '' @ tmax @ degree @ ''C**\<newline>''
               @ ''- Rain: **'' @ rain @ '' mm**, Snow: **'' @ snow @ '' mm**\<newline>''
               @ ''- Precip. probability (max): **'' @ pop @ ''%**'')
      | _ \<Rightarrow> Inl TypeError)"

text \<open>Line 357: one line of the three-day list.\<close>

definition next3days_line :: "daily_entry \<Rightarrow> py_error + string" where
  "next3days_line d =
     (case collect [format_opt 1 (day_tmin_c d), format_opt 1 (day_tmax_c d),
                    format_opt 1 (day_rain_mm d)] of
        Inr [tmin, tmax, rain] \<Rightarrow>
          Inr (''- '' @ day_date d @ '': '' @ weather_desc (day_weather_code d) @ '', ''
               @ tmin @ ndash @ tmax @ degree @ ''C, rain '' @ rain @ '' mm'')
      | _ \<Rightarrow> Inl TypeError)"

text \<open>Line 368: one line of the weekly list.\<close>

definition week_line :: "daily_entry \<Rightarrow> py_error + string" where
  "week_line d =
     (case collect [format_opt 1 (day_tmin_c d), format_opt 1 (day_tmax_c d)] of
        Inr [tmin, tmax] \<Rightarrow>
          Inr (''- '' @ day_date d @ '': '' @ weather_desc (day_weather_code d) @ '', ''
               @ tmin @ ndash @ tmax @ degree @ ''C'')
      | _ \<Rightarrow> Inl TypeError)"

definition help_text :: string where
  "help_text =
     ''You can ask about:\<newline>''
     @ ''- temperature, conditions (sunny/cloudy), wind, humidity, rain/snow\<newline>''
     @ ''- tomorrow'' @ rsquo @ ''s forecast, next 3 days, or weekly outlook\<newline>\<newline>''
     @ ''Examples:\<newline>''
     @ bullet @ '' *What's the wind speed in Tokyo?*\<newline>''
     @ bullet @ '' *Will it rain in Lisbon tomorrow morning?*\<newline>''
     @ bullet @ '' *3-day forecast for New York*''"

definition default_text :: string where
  "default_text =
     ''I can help with weather like temperature, conditions, wind, humidity, rain/snow, ''
     @ ''and forecasts (tomorrow / 3-day / week). Try: **'weather in Berlin'**.''"

definition tomorrow_fallback :: string where
  "tomorrow_fallback = ''I couldn't get tomorrow's forecast right now. Please try again.''"

definition next3days_fallback :: string where
  "next3days_fallback = ''I couldn't get the next 3 days right now. Please try again.''"

definition week_fallback :: string where
  "week_fallback = ''I couldn't get the weekly forecast right now. Please try again.''"

text \<open>
  \<open>format_weather_reply\<close>, lines 266 to 387. The result is the reply, or the exception that
  leaves the function.
\<close>

definition format_weather_reply ::
    "parsed_request \<Rightarrow> forecast_bundle \<Rightarrow> string \<Rightarrow> py_error + string" where
  "format_weather_reply parsed bundle label =
     (let intent = req_intent parsed;
          horizon = req_horizon parsed;
          tod = req_tod parsed;
          cur = current bundle;
          days = daily bundle;
          hours_list = hourly bundle;
          tone_prefix = (if req_sentiment parsed = Some ''negative'' then tone else [])
      in
      if intent \<in> set now_intents \<and> horizon = ''now'' then
        Inr (tone_prefix @ join ''\<newline>'' (now_parts intent cur label))
      else if horizon = ''tomorrow'' then
        (if days = [] \<or> length days < 2 then Inr tomorrow_fallback
         else
           let d = days ! 1 in
           if intent = ''tomorrow_rain'' then Inr (tone_prefix @ tomorrow_rain_msg label d)
           else
             (case (tod_hours tod, tod) of
                (Some hours, Some tod_name) \<Rightarrow>
                  if hours_list \<noteq> [] \<and> window_vals hours_list hours \<noteq> [] then
                    map_sum id (\<lambda>m. tone_prefix @ m)
                      (window_msg label tod_name (window_vals hours_list hours))
                  else map_sum id (\<lambda>m. tone_prefix @ m) (tomorrow_summary_msg label d)
              | _ \<Rightarrow> map_sum id (\<lambda>m. tone_prefix @ m) (tomorrow_summary_msg label d)))
      else if horizon = ''next3days'' then
        (if length days < 3 then Inr next3days_fallback
         else
           map_sum id
             (\<lambda>ls. tone_prefix @ join ''\<newline>'' ((''**'' @ label @ ''** '' @ ndash @ '' next 3 days:'') # ls))
             (collect (map next3days_line (take 3 days))))
      else if horizon = ''week'' then
        (if length days < 7 then Inr week_fallback
         else
           map_sum id
             (\<lambda>ls. tone_prefix @ join ''\<newline>'' ((''**'' @ label @ ''** '' @ ndash @ '' 7-day outlook:'') # ls))
             (collect (map week_line (take 7 days))))
      else if intent = ''help'' then Inr help_text
      else Inr default_text)"

section \<open>Sample data\<close>

text \<open>
  Readings, a daily entry, a request and a bundle on which the theorems below are evaluated. The
  temperature is the double that the literal \<open>21.46\<close> denotes.
\<close>

definition sample_current :: current_readings where
  "sample_current =
     \<lparr> cur_temperature_c = Some (3020226500105339 / 140737488355328), cur_apparent_c = Some 21,
       cur_humidity_pct = Some 55, cur_precip_mm = Some 0, cur_rain_mm = Some 0,
       cur_snow_mm = Some 0, cur_wind_kmh = Some (25 / 2), cur_weather_code = Some 3,
       cur_time = Some ''2024-05-01T12:00'' \<rparr>"

definition sample_day :: daily_entry where
  "sample_day =
     \<lparr> day_date = ''2024-05-01'', day_tmax_c = Some 20, day_tmin_c = Some (21 / 2),
       day_weather_code = Some 61, day_precip_prob_max = Some 40, day_rain_mm = Some (6 / 5),
       day_snow_mm = Some 0 \<rparr>"

definition sample_request :: "string \<Rightarrow> string \<Rightarrow> parsed_request" where
  "sample_request intent horizon =
     \<lparr> req_intent = intent, req_horizon = horizon, req_tod = None, req_coords = None,
       req_location_label = Some ''Paris'', req_sentiment = None, req_error = None \<rparr>"

definition sample_bundle :: "daily_entry list \<Rightarrow> forecast_bundle" where
  "sample_bundle days = \<lparr> current = sample_current, daily = days, hourly = [] \<rparr>"

section \<open>The daily entries of the weather service\<close>

text \<open>
  Lines 106 to 124 of \<open>weather_service.py\<close>: \<open>_parse_bundle\<close> builds the daily entries from
  the parallel arrays of the provider's JSON, where a value is a number or \<open>null\<close>. A
  maximum, a minimum, a weather code or a probability that is \<open>null\<close> or beyond the end of
  its array becomes \<open>None\<close>; rain and snow become \<open>0.0\<close> instead.
\<close>

definition json_at :: "'a option list \<Rightarrow> nat \<Rightarrow> 'a option" where
  "json_at xs i = (if i < length xs then xs ! i else None)"

definition daily_list ::
    "string list \<Rightarrow> real option list \<Rightarrow> real option list \<Rightarrow> int option list
       \<Rightarrow> real option list \<Rightarrow> real option list \<Rightarrow> real option list \<Rightarrow> daily_entry list" where
  "daily_list dates tmax tmin wcode pop rain snow =
     map (\<lambda>i. \<lparr> day_date = dates ! i,
                day_tmax_c = json_at tmax i,
                day_tmin_c = json_at tmin i,
                day_weather_code = json_at wcode i,
                day_precip_prob_max = json_at pop i,
                day_rain_mm = (case json_at rain i of None \<Rightarrow> Some 0 | Some v \<Rightarrow> Some v),
                day_snow_mm = (case json_at snow i of None \<Rightarrow> Some 0 | Some v \<Rightarrow> Some v) \<rparr>)
       [0..<min (length dates) 7]"

text \<open>Two days of provider data in which tomorrow's minimum temperature is \<open>null\<close>.\<close>

definition null_tmin_days :: "daily_entry list" where
  "null_tmin_days =
     daily_list [''2024-05-01'', ''2024-05-02''] [Some 20, Some 21] [Some (21 / 2), None]
       [Some 61, Some 3] [Some 40, Some 10] [Some (6 / 5), Some 0] [Some 0, Some 0]"

section \<open>Evaluation lemmas\<close>

lemma rules_help: "predict_intent_rules ''help me please'' = ''help''"
  by code_simp

lemma rules_temperature: "predict_intent_rules ''temperature in Lisbon'' = ''temperature_now''"
  by code_simp

lemma rules_snow_tomorrow: "predict_intent_rules ''will it snow tomorrow'' = ''tomorrow_summary''"
  by code_simp

lemma rules_rain_tomorrow: "predict_intent_rules ''rain tomorrow morning'' = ''tomorrow_rain''"
  by code_simp

lemma rules_next_three: "predict_intent_rules ''next three'' = ''next3days_summary''"
  by code_simp

lemma window_next_three: "extract_time_window ''next three'' = (''now'', None)"
  by code_simp

lemma location_next_three: "extract_location ''next three'' = None"
  by code_simp

lemma strip_next_three: "strip ''next three'' = ''next three''"
  by code_simp

lemma predict_intent_no_model:
  "predict_intent \<lparr>MODEL = None, SIA = sia, stemmer = st\<rparr> msg = predict_intent_rules msg"
  by (simp add: predict_intent_def predict_intent_ml_def)

section \<open>The rule cascade on the four test messages\<close>

text \<open>
  Claim C5. With no trained model loaded, the classification of \<open>help me please\<close> is
  \<open>help\<close>, of \<open>temperature in Lisbon\<close> is \<open>temperature_now\<close>, of \<open>will it snow tomorrow\<close> is
  \<open>tomorrow_summary\<close> and of \<open>rain tomorrow morning\<close> is \<open>tomorrow_rain\<close>: both for the rule
  cascade itself and for the intent that line 196 chooses when \<open>_MODEL\<close> is \<open>None\<close>.
\<close>

theorem rule_cascade_precedence:
  "predict_intent_rules ''help me please'' = ''help''
   \<and> predict_intent_rules ''temperature in Lisbon'' = ''temperature_now''
   \<and> predict_intent_rules ''will it snow tomorrow'' = ''tomorrow_summary''
   \<and> predict_intent_rules ''rain tomorrow morning'' = ''tomorrow_rain''
   \<and> predict_intent \<lparr>MODEL = None, SIA = sia, stemmer = st\<rparr> ''help me please'' = ''help''
   \<and> predict_intent \<lparr>MODEL = None, SIA = sia, stemmer = st\<rparr> ''temperature in Lisbon''
       = ''temperature_now''
   \<and> predict_intent \<lparr>MODEL = None, SIA = sia, stemmer = st\<rparr> ''will it snow tomorrow''
       = ''tomorrow_summary''
   \<and> predict_intent \<lparr>MODEL = None, SIA = sia, stemmer = st\<rparr> ''rain tomorrow morning''
       = ''tomorrow_rain''"
  by (simp only: predict_intent_no_model rules_help rules_temperature rules_snow_tomorrow
        rules_rain_tomorrow simp_thms)

section \<open>The cue lists of the classifier and of the horizon extractor differ\<close>

lemma interpret_next_three:
  "interpret_message \<lparr>MODEL = None, SIA = sia, stemmer = st\<rparr> (Some ''next three'')
       (Some ''Paris'') PyNone PyNone
     = \<lparr> req_intent = ''next3days_summary'', req_horizon = ''now'', req_tod = None,
         req_coords = None, req_location_label = Some ''Paris'',
         req_sentiment = sentiment \<lparr>MODEL = None, SIA = sia, stemmer = st\<rparr> ''next three'',
         req_error = None \<rparr>"
  by (simp add: interpret_message_def clean_message_def coords_of_def location_of_def
        strip_next_three location_next_three window_next_three rules_next_three
        predict_intent_no_model)

lemma format_default:
  "req_intent p \<notin> set now_intents \<Longrightarrow> req_horizon p = ''now'' \<Longrightarrow> req_intent p \<noteq> ''help''
     \<Longrightarrow> format_weather_reply p b l = Inr default_text"
  by (simp add: format_weather_reply_def Let_def)

text \<open>
  Claim C10. For the message \<open>next three\<close>, with the remembered location \<open>Paris\<close> and no
  trained model, the rule classifier answers \<open>next3days_summary\<close> (its cues have
  \<open>next three\<close>) while the horizon extractor answers \<open>now\<close> (its cues do not); the request
  that \<open>interpret_message\<close> builds carries both and no error, and for every bundle and every
  label \<open>format_weather_reply\<close> replies to it with the generic description of what the
  assistant can do, not with a three-day forecast.
\<close>

theorem cue_set_divergence:
  "predict_intent_rules ''next three'' = ''next3days_summary''
   \<and> fst (extract_time_window ''next three'') = ''now''
   \<and> req_intent (interpret_message \<lparr>MODEL = None, SIA = sia, stemmer = st\<rparr>
         (Some ''next three'') (Some ''Paris'') PyNone PyNone) = ''next3days_summary''
   \<and> req_horizon (interpret_message \<lparr>MODEL = None, SIA = sia, stemmer = st\<rparr>
         (Some ''next three'') (Some ''Paris'') PyNone PyNone) = ''now''
   \<and> req_error (interpret_message \<lparr>MODEL = None, SIA = sia, stemmer = st\<rparr>
         (Some ''next three'') (Some ''Paris'') PyNone PyNone) = None
   \<and> format_weather_reply
         (interpret_message \<lparr>MODEL = None, SIA = sia, stemmer = st\<rparr>
            (Some ''next three'') (Some ''Paris'') PyNone PyNone) b l
       = Inr default_text"
proof -
  let ?p = "interpret_message \<lparr>MODEL = None, SIA = sia, stemmer = st\<rparr>
              (Some ''next three'') (Some ''Paris'') PyNone PyNone"
  have i: "req_intent ?p = ''next3days_summary''" and h: "req_horizon ?p = ''now''"
    and e: "req_error ?p = None"
    by (simp_all add: interpret_next_three)
  have n: "req_intent ?p \<notin> set now_intents" and nh: "req_intent ?p \<noteq> ''help''"
    by (simp_all add: i now_intents_def)
  have "format_weather_reply ?p b l = Inr default_text"
    by (rule format_default [OF n h nh])
  then show ?thesis
    using i h e by (simp add: rules_next_three window_next_three)
qed

section \<open>Location extraction\<close>

lemma location_tokyo: "extract_location ''What's the weather in Tokyo'' = Some ''Tokyo''"
  by code_simp

lemma location_xyz: "extract_location ''xyz'' = None"
  by code_simp

lemma extract_location_None:
  "(extract_location text = None)
     = (location_after_preposition text = None \<and> location_after_weather_in text = None
        \<and> location_capitalized text = None)"
  by (simp add: extract_location_def split: option.splits)

lemma location_capitalized_None:
  "(location_capitalized text = None)
     = (case re_search rx_capitalized text of
          None \<Rightarrow> True
        | Some m \<Rightarrow> length (split text) < 2 \<or> lower (strip (group1 text m)) \<in> set temporal_words)"
  by (auto simp add: location_capitalized_def Let_def split: option.splits)

text \<open>
  Claim C7. \<open>_extract_location\<close> gives \<open>Tokyo\<close> for \<open>What's the weather in Tokyo\<close> and
  nothing for \<open>xyz\<close>. For every text it gives nothing exactly when none of its three
  heuristics finds a place: the pattern with a final \<open>in\<close>, \<open>at\<close> or \<open>for\<close> does not match
  the stripped text, the pattern \<open>weather in\<close> does not match the text, and the pattern of
  the final capitalised words does not match it, or the text has fewer than two words, or
  the words matched are one of the five temporal words.
\<close>

theorem location_extraction:
  "extract_location ''What's the weather in Tokyo'' = Some ''Tokyo''
   \<and> extract_location ''xyz'' = None
   \<and> (extract_location text = None)
       = (location_after_preposition text = None \<and> location_after_weather_in text = None
          \<and> location_capitalized text = None)
   \<and> (extract_location text = None)
       = (re_search rx_preposition (strip text) = None
          \<and> re_search rx_weather_in text = None
          \<and> (case re_search rx_capitalized text of
                None \<Rightarrow> True
              | Some m \<Rightarrow>
                  length (split text) < 2
                  \<or> lower (strip (group1 text m)) \<in> set temporal_words))"
proof -
  have a: "(location_after_preposition text = None)
             = (re_search rx_preposition (strip text) = None)"
    by (simp add: location_after_preposition_def split: option.splits)
  have b: "(location_after_weather_in text = None) = (re_search rx_weather_in text = None)"
    by (simp add: location_after_weather_in_def split: option.splits)
  show ?thesis
    unfolding extract_location_None [of "text"] a b location_capitalized_None [of "text"]
    by (simp add: location_tokyo location_xyz)
qed

section \<open>The classifier always answers with an intent\<close>





section \<open>The error contract of the interpreter\<close>








section \<open>Replies when the bundle has too few days\<close>

lemma format_week_short:
  "req_horizon p = ''week'' \<Longrightarrow> length (daily b) < 7
     \<Longrightarrow> format_weather_reply p b l = Inr week_fallback"
  by (simp add: format_weather_reply_def Let_def)

lemma format_tomorrow_short:
  "req_horizon p = ''tomorrow'' \<Longrightarrow> length (daily b) < 2
     \<Longrightarrow> format_weather_reply p b l = Inr tomorrow_fallback"
  by (simp add: format_weather_reply_def Let_def)

lemma format_next3days_short:
  "req_horizon p = ''next3days'' \<Longrightarrow> length (daily b) < 3
     \<Longrightarrow> format_weather_reply p b l = Inr next3days_fallback"
  by (simp add: format_weather_reply_def Let_def)

lemma fallback_literals:
  "isin ''couldn't get the weekly forecast'' week_fallback"
  "isin ''couldn't get tomorrow's forecast'' tomorrow_fallback"
  "isin ''couldn't get the next 3 days'' next3days_fallback"
  by code_simp+

text \<open>
  Claim C6. For every request, bundle and label: when the horizon is \<open>week\<close> and the bundle
  has fewer than 7 daily entries the reply is the fixed sentence with
  \<open>couldn't get the weekly forecast\<close>; when the horizon is \<open>tomorrow\<close> and there are fewer
  than 2 entries, the fixed sentence about tomorrow; when the horizon is \<open>next3days\<close> and
  there are fewer than 3, the fixed sentence about the next 3 days. Each is a reply
  (\<open>Inr\<close>), not an exception.
\<close>

theorem insufficient_data_fallbacks:
  "(req_horizon p = ''week'' \<and> length (daily b) < 7
      \<longrightarrow> format_weather_reply p b l = Inr week_fallback)
   \<and> (req_horizon p = ''tomorrow'' \<and> length (daily b) < 2
      \<longrightarrow> format_weather_reply p b l = Inr tomorrow_fallback)
   \<and> (req_horizon p = ''next3days'' \<and> length (daily b) < 3
      \<longrightarrow> format_weather_reply p b l = Inr next3days_fallback)
   \<and> week_fallback = ''I couldn't get the weekly forecast right now. Please try again.''
   \<and> tomorrow_fallback = ''I couldn't get tomorrow's forecast right now. Please try again.''
   \<and> next3days_fallback = ''I couldn't get the next 3 days right now. Please try again.''
   \<and> isin ''couldn't get the weekly forecast'' week_fallback"
  by (simp add: format_week_short format_tomorrow_short format_next3days_short
        fallback_literals week_fallback_def tomorrow_fallback_def next3days_fallback_def)

text \<open>Three daily entries, as in the test of the specification, and every horizon in turn.\<close>

theorem insufficient_data_fallbacks_witness:
  "format_weather_reply (sample_request ''week_summary'' ''week'')
       (sample_bundle [sample_day, sample_day, sample_day]) ''Paris''
     = Inr ''I couldn't get the weekly forecast right now. Please try again.''
   \<and> format_weather_reply (sample_request ''tomorrow_summary'' ''tomorrow'')
       (sample_bundle [sample_day]) ''Paris''
     = Inr ''I couldn't get tomorrow's forecast right now. Please try again.''
   \<and> format_weather_reply (sample_request ''next3days_summary'' ''next3days'')
       (sample_bundle [sample_day, sample_day]) ''Paris''
     = Inr ''I couldn't get the next 3 days right now. Please try again.''"
proof -
  have a: "format_weather_reply (sample_request ''week_summary'' ''week'')
       (sample_bundle [sample_day, sample_day, sample_day]) ''Paris'' = Inr week_fallback"
    using insufficient_data_fallbacks
      [of "sample_request ''week_summary'' ''week''"
          "sample_bundle [sample_day, sample_day, sample_day]" "''Paris''"]
    by (simp add: sample_request_def sample_bundle_def)
  have b: "format_weather_reply (sample_request ''tomorrow_summary'' ''tomorrow'')
       (sample_bundle [sample_day]) ''Paris'' = Inr tomorrow_fallback"
    using insufficient_data_fallbacks
      [of "sample_request ''tomorrow_summary'' ''tomorrow''" "sample_bundle [sample_day]"
          "''Paris''"]
    by (simp add: sample_request_def sample_bundle_def)
  have c: "format_weather_reply (sample_request ''next3days_summary'' ''next3days'')
       (sample_bundle [sample_day, sample_day]) ''Paris'' = Inr next3days_fallback"
    using insufficient_data_fallbacks
      [of "sample_request ''next3days_summary'' ''next3days''"
          "sample_bundle [sample_day, sample_day]" "''Paris''"]
    by (simp add: sample_request_def sample_bundle_def)
  from a b c show ?thesis
    by (simp add: week_fallback_def tomorrow_fallback_def next3days_fallback_def)
qed

section \<open>The help reply and the horizon\<close>

lemma format_help:
  "req_intent p = ''help'' \<Longrightarrow> req_horizon p \<noteq> ''tomorrow'' \<Longrightarrow> req_horizon p \<noteq> ''next3days''
     \<Longrightarrow> req_horizon p \<noteq> ''week'' \<Longrightarrow> format_weather_reply p b l = Inr help_text"
  by (simp add: format_weather_reply_def Let_def now_intents_def)

lemma help_text_examples:
  "isin ''What's the wind speed in Tokyo?'' help_text"
  "isin ''Will it rain in Lisbon tomorrow morning?'' help_text"
  "isin ''3-day forecast for New York'' help_text"
  by code_simp+

lemma help_week_short:
  "format_weather_reply (sample_request ''help'' ''week'')
       (sample_bundle [sample_day, sample_day, sample_day]) ''Paris'' = Inr week_fallback"
  by (simp add: format_week_short sample_request_def sample_bundle_def)

lemma help_tomorrow:
  "format_weather_reply (sample_request ''help'' ''tomorrow'')
       (sample_bundle [sample_day, sample_day]) ''Paris''
     = Inr (''**Paris** tomorrow (2024-05-01): **slight rain**\<newline>''
            @ ''- Min/Max: **10.5'' @ degree @ ''C / 20.0'' @ degree @ ''C**\<newline>''
            @ ''- Rain: **1.2 mm**, Snow: **0.0 mm**\<newline>''
            @ ''- Precip. probability (max): **40%**'')"
  by code_simp

lemma help_now:
  "format_weather_reply (sample_request ''help'' ''now'')
       (sample_bundle [sample_day, sample_day]) ''Paris'' = Inr help_text"
  by (simp add: format_help sample_request_def)

text \<open>
  Claim C2 does not hold as stated: the reply to a \<open>help\<close> request depends on its horizon.
  The same request and bundle give the help text at the horizon \<open>now\<close>, the weekly
  fallback at the horizon \<open>week\<close>, and tomorrow's forecast at the horizon \<open>tomorrow\<close>.
\<close>

theorem help_depends_on_horizon:
  "format_weather_reply (sample_request ''help'' ''now'')
       (sample_bundle [sample_day, sample_day]) ''Paris'' = Inr help_text
   \<and> format_weather_reply (sample_request ''help'' ''tomorrow'')
       (sample_bundle [sample_day, sample_day]) ''Paris'' \<noteq> Inr help_text
   \<and> format_weather_reply (sample_request ''help'' ''week'')
       (sample_bundle [sample_day, sample_day, sample_day]) ''Paris''
       = Inr ''I couldn't get the weekly forecast right now. Please try again.''
   \<and> format_weather_reply (sample_request ''help'' ''week'')
       (sample_bundle [sample_day, sample_day, sample_day]) ''Paris'' \<noteq> Inr help_text"
proof -
  have a: "week_fallback \<noteq> help_text"
    by (simp add: week_fallback_def help_text_def)
  have b: "format_weather_reply (sample_request ''help'' ''tomorrow'')
       (sample_bundle [sample_day, sample_day]) ''Paris'' \<noteq> Inr help_text"
    unfolding help_tomorrow by (simp add: help_text_def)
  from a b show ?thesis
    by (simp add: help_now help_week_short week_fallback_def)
qed

text \<open>
  Claim C2, amended. The horizon branches of lines 310 to 369 come before the help branch
  of line 372. For every request whose intent is \<open>help\<close> and whose horizon is none of
  \<open>tomorrow\<close>, \<open>next3days\<close> and \<open>week\<close>, and for every bundle and label, the reply is the fixed
  usage text with its three example questions, whatever the other fields of the request
  are.
\<close>

theorem help_template:
  "(req_intent p = ''help'' \<and> req_horizon p \<noteq> ''tomorrow'' \<and> req_horizon p \<noteq> ''next3days''
      \<and> req_horizon p \<noteq> ''week''
      \<longrightarrow> format_weather_reply p b l = Inr help_text)
   \<and> isin ''What's the wind speed in Tokyo?'' help_text
   \<and> isin ''Will it rain in Lisbon tomorrow morning?'' help_text
   \<and> isin ''3-day forecast for New York'' help_text"
  by (simp add: format_help help_text_examples)

theorem help_template_witness:
  "format_weather_reply
      \<lparr> req_intent = ''help'', req_horizon = ''now'', req_tod = Some ''morning'',
        req_coords = Some (1, 2), req_location_label = None,
        req_sentiment = Some ''negative'', req_error = None \<rparr>
      (sample_bundle []) ''Lisbon'' = Inr help_text"
  using help_template
    [of "\<lparr> req_intent = ''help'', req_horizon = ''now'', req_tod = Some ''morning'',
           req_coords = Some (1, 2), req_location_label = None,
           req_sentiment = Some ''negative'', req_error = None \<rparr>"
        "sample_bundle []" "''Lisbon''"]
  by simp

section \<open>A missing daily value in the summaries\<close>

lemma null_tmin_days_eq:
  "null_tmin_days =
     [\<lparr> day_date = ''2024-05-01'', day_tmax_c = Some 20, day_tmin_c = Some (21 / 2),
        day_weather_code = Some 61, day_precip_prob_max = Some 40, day_rain_mm = Some (6 / 5),
        day_snow_mm = Some 0 \<rparr>,
      \<lparr> day_date = ''2024-05-02'', day_tmax_c = Some 21, day_tmin_c = None,
        day_weather_code = Some 3, day_precip_prob_max = Some 10, day_rain_mm = Some 0,
        day_snow_mm = Some 0 \<rparr>]"
  by (simp add: null_tmin_days_def daily_list_def json_at_def upt_rec)

text \<open>
  Claim C3 fails on the code. \<open>_parse_bundle\<close> stores \<open>None\<close> for a minimum temperature
  that the provider gives as \<open>null\<close>; the block for the current readings and the sentence
  about tomorrow's rain test their values for \<open>None\<close>, but the summary of tomorrow (lines
  342 to 347) formats \<open>tmin\<close> with \<open>:.1f\<close> untested, and the f-string raises \<open>TypeError\<close>. On
  the same bundle the request for tomorrow's rain gets its reply.
\<close>

theorem tomorrow_summary_raises_on_null:
  "format_weather_reply (sample_request ''tomorrow_summary'' ''tomorrow'')
       (sample_bundle null_tmin_days) ''Paris'' = Inl TypeError
   \<and> format_weather_reply (sample_request ''tomorrow_rain'' ''tomorrow'')
       (sample_bundle null_tmin_days) ''Paris''
     = Inr (''**Paris** tomorrow (2024-05-02): precipitation probability up to **10%**. ''
            @ ''expected rain '' @ approx @ '' **0.0 mm**.'')"
  unfolding null_tmin_days_eq by code_simp

section \<open>The rendering of numbers\<close>











section \<open>The reply and the intent are functions of their inputs\<close>



end
